theory Spec2Isabelle
  imports Complex_Main
begin

section \<open>The arm joint velocity controller\<close>

text \<open>
  A shallow embedding of \<^verbatim>\<open>arm_joint_velocity_control.cpp\<close>: the class
  \<^verbatim>\<open>controller::JointVelocityController\<close> with its methods \<^verbatim>\<open>init\<close>,
  \<^verbatim>\<open>starting\<close>, \<^verbatim>\<open>update\<close> and \<^verbatim>\<open>velocityCommand\<close>.

  Conventions of the embedding:
  \<^item> a C++ \<^verbatim>\<open>double\<close> is a \<^typ>\<open>real\<close>; the controller itself performs one
    subtraction and one addition per joint and tick, everything else numeric happens
    inside the PID primitive, which is a parameter;
  \<^item> a \<^verbatim>\<open>ros::Time\<close> is an \<^typ>\<open>int\<close> (nanoseconds), a \<^verbatim>\<open>ros::Duration\<close> the
    difference of two of them;
  \<^item> a \<^verbatim>\<open>JointState*\<close> is the position of the joint state in the robot state's
    joint list, so that two bindings of one joint alias each other as the pointers do;
  \<^item> every \<^verbatim>\<open>ROS_ERROR\<close> is an entry appended to a log that the operation returns
    (\<^verbatim>\<open>ROS_DEBUG\<close> output is left out);
  \<^item> \<^verbatim>\<open>std::vector::operator[]\<close> past the end of the vector is undefined behaviour:
    the operation stops there and returns the index together with the state it had
    reached;
  \<^item> so is the use of a variable that was never assigned: the operation stops there as
    well, with the state it had reached.
\<close>

subsection \<open>Data model\<close>

type_synonym time = int
type_synonym duration = int

text \<open>\<^verbatim>\<open>pr2_mechanism_model::JointState\<close>, the fields the controller touches;
  \<open>name\<close> is \<^verbatim>\<open>joint_->name\<close>.\<close>

record joint_state =
  name :: string
  velocity :: real
  commanded_effort :: real
  calibrated :: bool

text \<open>\<^verbatim>\<open>pr2_mechanism_model::RobotState\<close>: the joint states and the clock read by
  \<^verbatim>\<open>getTime()\<close>.\<close>

record robot_state =
  joint_states :: "joint_state list"
  current_time :: time

text \<open>Modelled from the spec: the PID primitive \<^verbatim>\<open>control_toolbox::Pid\<close> is an
  external library. The spec's data model gives it proportional, integral and
  derivative gains, integral windup bounds and an internal integral and derivative
  state.\<close>

record pid =
  p_gain :: real
  i_gain :: real
  d_gain :: real
  i_max :: real
  i_min :: real
  i_error :: real
  d_error :: real

text \<open>Modelled from the spec: \<^verbatim>\<open>Pid::reset()\<close> zeroes the internal integral and
  derivative state and keeps the configured gains.\<close>

definition reset :: "pid \<Rightarrow> pid" where
  "reset p = p\<lparr>i_error := 0, d_error := 0\<rparr>"

text \<open>Modelled from the spec: the element that \<^verbatim>\<open>pids.resize\<close> appends is a
  default-constructed \<^verbatim>\<open>Pid\<close>, of the external library; it is taken to have zero
  gains, bounds and state. \<^verbatim>\<open>init\<close> overwrites every element it appends, or fails.\<close>

definition Pid_default :: pid where
  "Pid_default = \<lparr>p_gain = 0, i_gain = 0, d_gain = 0, i_max = 0, i_min = 0,
     i_error = 0, d_error = 0\<rparr>"

text \<open>\<^verbatim>\<open>Pid::updatePid(error, dt)\<close> is a black box that returns the effort
  contribution and advances the controller's internal state. Every operation that
  calls it takes it as the parameter \<open>updatePid\<close> of this type.\<close>

type_synonym pid_update = "pid \<Rightarrow> real \<Rightarrow> duration \<Rightarrow> real \<times> pid"

text \<open>\<^verbatim>\<open>XmlRpc::XmlRpcValue\<close>, by its type tag.\<close>

datatype xml_rpc_value =
    TypeInvalid
  | TypeBoolean bool
  | TypeInt int
  | TypeDouble real
  | TypeString string
  | TypeArray "xml_rpc_value list"

text \<open>What \<^verbatim>\<open>init\<close> reads through its \<^verbatim>\<open>ros::NodeHandle\<close>: the namespace, the
  parameter \<^verbatim>\<open>joints\<close>, the string parameter \<^verbatim>\<open>gains\<close>, and for every namespace
  the outcome of \<^verbatim>\<open>Pid::init\<close> on a node handle of that namespace (the configured
  controller, or nothing when the gains cannot be loaded).\<close>

record node_handle =
  getNamespace :: string
  joints_param :: "xml_rpc_value option"
  gains_param :: "string option"
  pid_init :: "string \<Rightarrow> pid option"

text \<open>\<^verbatim>\<open>brics_actuator::JointValue\<close>: one entry of a velocity command.\<close>

record joint_value =
  joint_uri :: string
  jv_unit :: string
  jv_value :: real

text \<open>The members of \<^verbatim>\<open>JointVelocityController\<close>. The robot state behind
  \<^verbatim>\<open>robotPtr\<close> is passed to every operation.\<close>

record controller =
  joints :: "nat list"
  targetVelocities :: "real list"
  pids :: "pid list"
  lastTime :: time

text \<open>The constructor leaves the vectors empty and the time zero.\<close>

definition JointVelocityController :: controller where
  "JointVelocityController = \<lparr>joints = [], targetVelocities = [], pids = [], lastTime = 0\<rparr>"

text \<open>The messages of the \<^verbatim>\<open>ROS_ERROR\<close> calls, with their arguments.\<close>

datatype log_entry =
    NoJointsGiven string
  | MalformedJointSpecification string
  | NotAllStrings string
  | JointNotFound string string
  | JointNotCalibrated string string
  | CantSetupPid string string
  | UnableToLocateJoint string
  | IncompatibleUnits string string

text \<open>The result of an operation that indexes vectors: it ran to its end, or it
  indexed a vector at the given position past its end, in the given state.\<close>

datatype 'a outcome = Done 'a | OutOfRange nat 'a

text \<open>\<^verbatim>\<open>std::vector::resize(n)\<close>: truncates, or appends value-initialised
  elements.\<close>

definition resize :: "nat \<Rightarrow> 'a \<Rightarrow> 'a list \<Rightarrow> 'a list" where
  "resize n d xs = take n xs @ replicate (n - length xs) d"

subsection \<open>Initialisation\<close>

text \<open>Modelled from the spec: the robot-model lookup capability
  \<^verbatim>\<open>RobotState::getJointState(name)\<close> belongs to the host framework. It resolves a
  name to the handle of the joint state of that name, or to nothing (\<^verbatim>\<open>NULL\<close>).\<close>

fun find_joint :: "joint_state list \<Rightarrow> string \<Rightarrow> nat \<Rightarrow> nat option" where
  "find_joint [] n i = None"
| "find_joint (j # js) n i = (if name j = n then Some i else find_joint js n (Suc i))"

definition getJointState :: "robot_state \<Rightarrow> string \<Rightarrow> nat option" where
  "getJointState r n = find_joint (joint_states r) n 0"

text \<open>The first loop of \<^verbatim>\<open>init\<close> (lines 83 to 97): every name must be a string that
  resolves; the handle is pushed onto \<open>joints\<close>. The loop returns the error it
  stopped at, if any, and the vector as it then is.\<close>

fun resolve_joints ::
  "robot_state \<Rightarrow> string \<Rightarrow> xml_rpc_value list \<Rightarrow> nat list \<Rightarrow> log_entry option \<times> nat list" where
  "resolve_joints r nsp [] js = (None, js)"
| "resolve_joints r nsp (TypeString n # xs) js =
     (case getJointState r n of
        None \<Rightarrow> (Some (JointNotFound n nsp), js)
      | Some h \<Rightarrow> resolve_joints r nsp xs (js @ [h]))"
| "resolve_joints r nsp (x # xs) js = (Some (NotAllStrings nsp), js)"

text \<open>The second loop (lines 100 to 105): the first bound joint that is not
  calibrated.\<close>

fun first_uncalibrated :: "robot_state \<Rightarrow> nat list \<Rightarrow> nat option" where
  "first_uncalibrated r [] = None"
| "first_uncalibrated r (h # hs) =
     (if \<not> calibrated (joint_states r ! h) then Some h else first_uncalibrated r hs)"

text \<open>The third loop (lines 118 to 127) at position \<open>i\<close>: \<^verbatim>\<open>pids[i].init\<close> on the
  namespace of the joint; a failure is reported and ends \<^verbatim>\<open>init\<close>. \<open>pids\<close> has just
  been resized to the number of joints, so this \<open>i\<close> is in range. After a success,
  line 124 declares \<^verbatim>\<open>double p, i, d, i_max, i_min\<close> in the body of the loop; this
  \<open>i\<close> hides the loop counter, and line 125 indexes \<^verbatim>\<open>pids[i]\<close> with it before
  anything was assigned to it. Using that indeterminate value is undefined behaviour:
  the loop stops there, with the bank as it then is, and no pass through the body
  that sets up a controller ever comes to its end.\<close>

datatype pid_setup =
    AllSetUp "pid list"
  | SetupFailed log_entry "pid list"
  | UninitialisedIndex "pid list"

fun setup_pids ::
  "node_handle \<Rightarrow> string \<Rightarrow> robot_state \<Rightarrow> nat list \<Rightarrow> nat \<Rightarrow> pid list \<Rightarrow> pid_setup" where
  "setup_pids nh gainsNS r [] i ps = AllSetUp ps"
| "setup_pids nh gainsNS r (h # hs) i ps =
     (case pid_init nh (gainsNS @ ''/'' @ name (joint_states r ! h)) of
        None \<Rightarrow> SetupFailed (CantSetupPid (name (joint_states r ! h)) (getNamespace nh)) ps
      | Some p \<Rightarrow> UninitialisedIndex (ps[i := p]))"

text \<open>The namespace of the gains (lines 111 to 114): the parameter \<^verbatim>\<open>gains\<close>, or
  \<^verbatim>\<open>/gains\<close> under the namespace of the node handle.\<close>

definition gains_namespace :: "node_handle \<Rightarrow> string" where
  "gains_namespace nh = (case gains_param nh of Some g \<Rightarrow> g | None \<Rightarrow> getNamespace nh @ ''/gains'')"

text \<open>\<^verbatim>\<open>init\<close> either returns, with its boolean, what it logged and the controller
  as it left it, or it reads the uninitialised index of the third loop, having logged
  and done what it had by then. No failure path undoes what was done before it.\<close>

datatype init_outcome =
    Returned "bool \<times> log_entry list \<times> controller"
  | Uninitialised "log_entry list \<times> controller"

definition init :: "robot_state \<Rightarrow> node_handle \<Rightarrow> controller \<Rightarrow> init_outcome" where
  "init r nh c =
     (case joints_param nh of
        None \<Rightarrow> Returned (False, [NoJointsGiven (getNamespace nh)], c)
      | Some (TypeArray jointNames) \<Rightarrow>
          (case resolve_joints r (getNamespace nh) jointNames (joints c) of
             (Some e, js) \<Rightarrow> Returned (False, [e], c\<lparr>joints := js\<rparr>)
           | (None, js) \<Rightarrow>
               (case first_uncalibrated r js of
                  Some h \<Rightarrow>
                    Returned
                      (False, [JointNotCalibrated (name (joint_states r ! h)) (getNamespace nh)],
                       c\<lparr>joints := js\<rparr>)
                | None \<Rightarrow>
                    (let gainsNS = gains_namespace nh;
                         c1 = c\<lparr>joints := js,
                                targetVelocities := resize (length js) 0 (targetVelocities c),
                                pids := resize (length js) Pid_default (pids c)\<rparr>
                     in case setup_pids nh gainsNS r js 0 (pids c1) of
                          SetupFailed e ps \<Rightarrow> Returned (False, [e], c1\<lparr>pids := ps\<rparr>)
                        | UninitialisedIndex ps \<Rightarrow> Uninitialised ([], c1\<lparr>pids := ps\<rparr>)
                        | AllSetUp ps \<Rightarrow> Returned (True, [], c1\<lparr>pids := ps\<rparr>))))
      | Some _ \<Rightarrow> Returned (False, [MalformedJointSpecification (getNamespace nh)], c))"

subsection \<open>Start event and control cycle\<close>

text \<open>\<^verbatim>\<open>starting\<close>: reset every PID controller and take the time.\<close>

definition starting :: "robot_state \<Rightarrow> controller \<Rightarrow> controller" where
  "starting r c = c\<lparr>pids := map reset (pids c), lastTime := current_time r\<rparr>"

text \<open>The loop of \<^verbatim>\<open>update\<close> (lines 154 to 157) over the joints from position \<open>i\<close>
  on. It reads \<^verbatim>\<open>targetVelocities[i]\<close>, calls \<^verbatim>\<open>pids[i].updatePid\<close> and adds the
  result to the commanded effort behind the joint pointer.\<close>

fun update_loop ::
  "pid_update \<Rightarrow> duration \<Rightarrow> real list \<Rightarrow> nat list \<Rightarrow> nat \<Rightarrow> pid list \<times> robot_state \<Rightarrow>
     (pid list \<times> robot_state) outcome" where
  "update_loop updatePid dt tv [] i st = Done st"
| "update_loop updatePid dt tv (h # hs) i (ps, r) =
     (if i < length tv \<and> i < length ps then
        (let js = joint_states r;
             error = velocity (js ! h) - tv ! i;
             (effort, p) = updatePid (ps ! i) error dt;
             r' = r\<lparr>joint_states :=
                      js[h := (js ! h)\<lparr>commanded_effort := commanded_effort (js ! h) + effort\<rparr>]\<rparr>
         in update_loop updatePid dt tv hs (Suc i) (ps[i := p], r'))
      else OutOfRange i (ps, r))"

definition update :: "pid_update \<Rightarrow> robot_state \<Rightarrow> controller \<Rightarrow> (controller \<times> robot_state) outcome" where
  "update updatePid r c =
     (let currentTime = current_time r;
          dt = currentTime - lastTime c;
          c1 = c\<lparr>lastTime := currentTime\<rparr>
      in case update_loop updatePid dt (targetVelocities c1) (joints c1) 0 (pids c1, r) of
           Done (ps, r') \<Rightarrow> Done (c1\<lparr>pids := ps\<rparr>, r')
         | OutOfRange i (ps, r') \<Rightarrow> OutOfRange i (c1\<lparr>pids := ps\<rparr>, r'))"

subsection \<open>Command ingestion\<close>

text \<open>The inner loop of \<^verbatim>\<open>velocityCommand\<close> (lines 173 to 178): the position of
  the first entry for the joint name, counted from \<open>k\<close>, or \<open>-1\<close>.\<close>

fun locate :: "joint_value list \<Rightarrow> string \<Rightarrow> nat \<Rightarrow> int" where
  "locate [] n k = - 1"
| "locate (v # vs) n k = (if joint_uri v = n then int k else locate vs n (Suc k))"

text \<open>The outer loop (lines 171 to 181): the lookup table from joint positions to
  entry positions, and a report for every joint without an entry.\<close>

fun correlate :: "robot_state \<Rightarrow> joint_value list \<Rightarrow> nat list \<Rightarrow> int list \<times> log_entry list" where
  "correlate r velocities [] = ([], [])"
| "correlate r velocities (h # hs) =
     (let l = locate velocities (name (joint_states r ! h)) 0;
          lg = (if l = - 1 then [UnableToLocateJoint (name (joint_states r ! h))] else []);
          (ls, lg') = correlate r velocities hs
      in (l # ls, lg @ lg'))"

text \<open>The writing loop (lines 187 to 195) over the lookup table from joint position
  \<open>j\<close> on. \<open>rad_per_s\<close> is the string \<^verbatim>\<open>to_string(si::radian_per_second)\<close> of the
  units library.\<close>

fun write_targets ::
  "string \<Rightarrow> joint_value list \<Rightarrow> int list \<Rightarrow> nat \<Rightarrow> log_entry list \<times> real list \<Rightarrow>
     (log_entry list \<times> real list) outcome" where
  "write_targets rad_per_s velocities [] j st = Done st"
| "write_targets rad_per_s velocities (l # ls) j (lg, tv) =
     (if l \<noteq> - 1 then
        (let v = velocities ! nat l;
             lg' = (if jv_unit v \<noteq> rad_per_s
                    then lg @ [IncompatibleUnits (joint_uri v) (jv_unit v)] else lg)
         in if tv \<noteq> [] then
              (if j < length tv
               then write_targets rad_per_s velocities ls (Suc j) (lg', tv[j := jv_value v])
               else OutOfRange j (lg', tv))
            else write_targets rad_per_s velocities ls (Suc j) (lg', tv))
      else write_targets rad_per_s velocities ls (Suc j) (lg, tv))"

text \<open>\<^verbatim>\<open>velocityCommand\<close>: an empty message is a start event; otherwise the target
  vector is resized to the number of entries and written by joint position.\<close>

definition velocityCommand ::
  "string \<Rightarrow> robot_state \<Rightarrow> controller \<Rightarrow> joint_value list \<Rightarrow> (log_entry list \<times> controller) outcome" where
  "velocityCommand rad_per_s r c velocities =
     (if velocities = [] then Done ([], starting r c)
      else
        (let (lookup, lg) = correlate r velocities (joints c);
             tv = resize (length velocities) 0 (targetVelocities c)
         in case write_targets rad_per_s velocities lookup 0 (lg, tv) of
              Done (lg', tv') \<Rightarrow> Done (lg', c\<lparr>targetVelocities := tv'\<rparr>)
            | OutOfRange j (lg', tv') \<Rightarrow> OutOfRange j (lg', c\<lparr>targetVelocities := tv'\<rparr>)))"

subsection \<open>States reached and example states\<close>

text \<open>The state an operation had reached when it returned or left the vector.\<close>

fun reached :: "'a outcome \<Rightarrow> 'a" where
  "reached (Done s) = s"
| "reached (OutOfRange i s) = s"

text \<open>The controller states that can follow a state \<open>c0\<close>: any number of start
  events, ticks and commands, each on whatever the robot state then is, each taken as
  far as it got.\<close>

inductive subsequent :: "pid_update \<Rightarrow> string \<Rightarrow> controller \<Rightarrow> controller \<Rightarrow> bool"
  for updatePid rad_per_s c0 where
  initial: "subsequent updatePid rad_per_s c0 c0"
| started: "subsequent updatePid rad_per_s c0 c \<Longrightarrow>
     subsequent updatePid rad_per_s c0 (starting r c)"
| ticked: "subsequent updatePid rad_per_s c0 c \<Longrightarrow>
     subsequent updatePid rad_per_s c0 (fst (reached (update updatePid r c)))"
| commanded: "subsequent updatePid rad_per_s c0 c \<Longrightarrow>
     subsequent updatePid rad_per_s c0 (snd (reached (velocityCommand rad_per_s r c velocities)))"

text \<open>A robot with the two joints \<open>J1\<close> and \<open>J2\<close>, and controllers bound to both, in this
  order: one with zero targets and fresh PID controllers, one in the middle of a run.\<close>

definition J1 :: joint_state where
  "J1 = \<lparr>name = ''J1'', velocity = 0, commanded_effort = 0, calibrated = True\<rparr>"

definition J2 :: joint_state where
  "J2 = \<lparr>name = ''J2'', velocity = 0, commanded_effort = 0, calibrated = True\<rparr>"

definition two_joints :: robot_state where
  "two_joints = \<lparr>joint_states = [J1, J2], current_time = 5\<rparr>"

definition bound_two :: controller where
  "bound_two = \<lparr>joints = [0, 1], targetVelocities = [0, 0],
     pids = [Pid_default, Pid_default], lastTime = 0\<rparr>"

definition wound_up :: pid where
  "wound_up = \<lparr>p_gain = 2, i_gain = 1, d_gain = 0, i_max = 4, i_min = - 4,
     i_error = 3, d_error = 1\<rparr>"

definition running_two :: controller where
  "running_two = \<lparr>joints = [0, 1], targetVelocities = [1 / 2, 7 / 10],
     pids = [wound_up, wound_up], lastTime = 2\<rparr>"

text \<open>An example of a PID primitive: proportional only, with no state.\<close>

definition proportional :: pid_update where
  "proportional p e dt = (- (p_gain p * e), p)"

text \<open>Example commands; \<open>rad/s\<close> stands for the expected unit string in them.\<close>

definition J2_only :: "joint_value list" where
  "J2_only = [\<lparr>joint_uri = ''J2'', jv_unit = ''rad/s'', jv_value = 3 / 2\<rparr>]"


definition J1_only :: "joint_value list" where
  "J1_only = [\<lparr>joint_uri = ''J1'', jv_unit = ''rad/s'', jv_value = 3 / 2\<rparr>]"


text \<open>An example configuration: the namespace \<open>arm\<close>, the given joint names, and
  gains for \<open>J1\<close> and \<open>J2\<close> under \<open>arm/gains\<close>.\<close>

definition arm_gains :: "string \<Rightarrow> pid option" where
  "arm_gains nsp = (if nsp = ''arm/gains/J1'' \<or> nsp = ''arm/gains/J2''
     then Some (reset wound_up) else None)"

definition arm_config :: "string list \<Rightarrow> node_handle" where
  "arm_config names = \<lparr>getNamespace = ''arm'',
     joints_param = Some (TypeArray (map TypeString names)),
     gains_param = None, pid_init = arm_gains\<rparr>"

text \<open>A robot state in motion, and an example of a PID primitive with an integral
  term, which uses the elapsed time.\<close>

definition moving_two :: robot_state where
  "moving_two = \<lparr>joint_states =
      [\<lparr>name = ''J1'', velocity = 1, commanded_effort = 10, calibrated = True\<rparr>,
       \<lparr>name = ''J2'', velocity = 2, commanded_effort = 20, calibrated = True\<rparr>],
     current_time = 5\<rparr>"

definition integrating :: pid_update where
  "integrating p e dt =
     (let i = i_error p + real_of_int dt * e
      in (- (p_gain p * e + i_gain p * i), p\<lparr>i_error := i\<rparr>))"

section \<open>Facts about the loops\<close>

subsection \<open>The loops of the command ingestion\<close>


lemma correlate_lookup:
  "fst (correlate r vs hs) = map (\<lambda>h. locate vs (name (joint_states r ! h)) 0) hs"
  by (induction hs) (auto simp: Let_def split: prod.splits)

lemma write_targets_keeps:
  "length (snd (reached (write_targets u vs ls j (lg, tv)))) = length tv \<and>
   set lg \<subseteq> set (fst (reached (write_targets u vs ls j (lg, tv)))) \<and>
   (\<forall>i<j. snd (reached (write_targets u vs ls j (lg, tv))) ! i = tv ! i)"
proof (induction ls arbitrary: j lg tv)
  case Nil
  then show ?case by simp
next
  case (Cons l ls)
  show ?case
    using Cons.IH [of "Suc j"]
    by (simp add: Let_def) (fastforce)
qed

lemma write_targets_past_end:
  "tv \<noteq> [] \<Longrightarrow> k < length ls \<Longrightarrow> ls ! k \<noteq> - 1 \<Longrightarrow> length tv \<le> j + k \<Longrightarrow>
     \<exists>j' st. write_targets u vs ls j (lg, tv) = OutOfRange j' st \<and> length tv \<le> j' \<and> j' \<le> j + k"
proof (induction ls arbitrary: j k lg tv)
  case Nil
  then show ?case by simp
next
  case (Cons l ls)
  show ?case
  proof (cases k)
    case 0
    with Cons.prems show ?thesis by (simp add: Let_def)
  next
    case (Suc k')
    with Cons.prems have k': "k' < length ls" "ls ! k' \<noteq> - 1" by simp_all
    have step: "\<And>lg' tv'. tv' \<noteq> [] \<Longrightarrow> length tv' = length tv \<Longrightarrow>
        \<exists>j' st. write_targets u vs ls (Suc j) (lg', tv') = OutOfRange j' st \<and>
                length tv \<le> j' \<and> j' \<le> j + k"
    proof -
      fix lg' :: "log_entry list" and tv' :: "real list"
      assume a: "tv' \<noteq> []" "length tv' = length tv"
      from Cons.IH [OF a(1) k', of "Suc j" lg'] Cons.prems(4) a(2) Suc
      show "\<exists>j' st. write_targets u vs ls (Suc j) (lg', tv') = OutOfRange j' st \<and>
                length tv \<le> j' \<and> j' \<le> j + k" by simp
    qed
    show ?thesis
    proof (cases "l \<noteq> - 1 \<and> \<not> j < length tv")
      case True
      with Cons.prems(1) Cons.prems(4) show ?thesis by (auto simp: Let_def)
    next
      case False
      with Cons.prems(1) step [of tv] step [of "tv[j := jv_value (vs ! nat l)]"]
      show ?thesis by (auto simp: Let_def)
    qed
  qed
qed






lemma update_loop_short_targets:
  "i \<le> length tv \<Longrightarrow> length tv < i + length hs \<Longrightarrow> length tv \<le> length ps \<Longrightarrow>
     \<exists>st. update_loop updatePid dt tv hs i (ps, r) = OutOfRange (length tv) st"
proof (induction hs arbitrary: i ps r)
  case Nil
  then show ?case by simp
next
  case (Cons h hs)
  show ?case
  proof (cases "i < length tv")
    case True
    with Cons.prems have "i < length ps" by simp
    with True Cons.prems Cons.IH [of "Suc i"] show ?thesis
      by (simp add: Let_def split: prod.splits)
  next
    case False
    with Cons.prems have "i = length tv" by simp
    then show ?thesis by simp
  qed
qed

lemma velocityCommand_nonempty:
  "velocities \<noteq> [] \<Longrightarrow>
     reached (velocityCommand u r c velocities) =
       (fst (reached (write_targets u velocities
                 (map (\<lambda>h. locate velocities (name (joint_states r ! h)) 0) (joints c)) 0
                 (snd (correlate r velocities (joints c)),
                  resize (length velocities) 0 (targetVelocities c)))),
        c\<lparr>targetVelocities := snd (reached (write_targets u velocities
                 (map (\<lambda>h. locate velocities (name (joint_states r ! h)) 0) (joints c)) 0
                 (snd (correlate r velocities (joints c)),
                  resize (length velocities) 0 (targetVelocities c))))\<rparr>)"
  using correlate_lookup [of r velocities "joints c"]
  by (auto simp: velocityCommand_def split: prod.splits outcome.splits)

lemma length_resize: "length (resize n d xs) = n"
  by (simp add: resize_def)


subsection \<open>The loops of the initialisation\<close>

text \<open>A resolved handle is a position of the robot's joint list, and the joint there
  has the name that was looked up.\<close>

lemma find_joint_Some:
  "find_joint js n i = Some h \<Longrightarrow> i \<le> h \<and> h < i + length js \<and> name (js ! (h - i)) = n"
proof (induction js arbitrary: i)
  case Nil
  then show ?case by simp
next
  case (Cons j js)
  show ?case
  proof (cases "name j = n")
    case True
    with Cons.prems show ?thesis by simp
  next
    case False
    with Cons.prems have "find_joint js n (Suc i) = Some h" by simp
    from Cons.IH [OF this] have ih: "Suc i \<le> h" "h < Suc i + length js"
      "name (js ! (h - Suc i)) = n" by simp_all
    from ih(1) have "h - i = Suc (h - Suc i)" by simp
    with ih show ?thesis by simp
  qed
qed

lemma getJointState_Some:
  "getJointState r n = Some h \<Longrightarrow> h < length (joint_states r) \<and> name (joint_states r ! h) = n"
  using find_joint_Some [of "joint_states r" n 0 h] by (simp add: getJointState_def)

lemma resolve_joints_all:
  "\<forall>n\<in>set names. getJointState r n \<noteq> None \<Longrightarrow>
     \<exists>hs. resolve_joints r nsp (map TypeString names) js = (None, js @ hs) \<and>
          map Some hs = map (getJointState r) names"
proof (induction names arbitrary: js)
  case Nil
  then show ?case by simp
next
  case (Cons n names)
  from Cons.prems obtain h where h: "getJointState r n = Some h" by auto
  from Cons.prems have "\<forall>n\<in>set names. getJointState r n \<noteq> None" by simp
  from Cons.IH [OF this, of "js @ [h]"] obtain hs
    where hs: "resolve_joints r nsp (map TypeString names) (js @ [h]) = (None, (js @ [h]) @ hs)"
      "map Some hs = map (getJointState r) names" by blast
  show ?case
    by (rule exI [of _ "h # hs"]) (simp add: h hs)
qed

lemma resolve_joints_stops:
  "\<forall>n\<in>set found. getJointState r n \<noteq> None \<Longrightarrow> getJointState r missing = None \<Longrightarrow>
     \<exists>hs. resolve_joints r nsp (map TypeString (found @ missing # rest)) js
            = (Some (JointNotFound missing nsp), js @ hs) \<and>
          map Some hs = map (getJointState r) found"
proof (induction found arbitrary: js)
  case Nil
  then show ?case by simp
next
  case (Cons n found)
  from Cons.prems obtain h where h: "getJointState r n = Some h" by auto
  from Cons.prems have "\<forall>n\<in>set found. getJointState r n \<noteq> None" by simp
  from Cons.IH [OF this Cons.prems(2), of "js @ [h]"] obtain hs
    where hs: "resolve_joints r nsp (map TypeString (found @ missing # rest)) (js @ [h])
                 = (Some (JointNotFound missing nsp), (js @ [h]) @ hs)"
      "map Some hs = map (getJointState r) found" by blast
  show ?case
    using h hs by (intro exI [of _ "h # hs"]) simp
qed

lemma first_unresolved:
  "\<exists>n\<in>set names. getJointState r n = None \<Longrightarrow>
     \<exists>found missing rest. names = found @ missing # rest \<and>
        (\<forall>n\<in>set found. getJointState r n \<noteq> None) \<and> getJointState r missing = None"
proof -
  assume "\<exists>n\<in>set names. getJointState r n = None"
  then obtain found missing rest where "names = found @ missing # rest"
    "getJointState r missing = None" "\<forall>n\<in>set found. \<not> getJointState r n = None"
    using split_list_first_prop [of names "\<lambda>n. getJointState r n = None"] by blast
  then show ?thesis by blast
qed

lemma first_uncalibrated_None:
  "\<forall>h\<in>set hs. calibrated (joint_states r ! h) \<Longrightarrow> first_uncalibrated r hs = None"
  by (induction hs) simp_all

lemma map_Some_eq_map:
  "map Some hs = map f ns \<Longrightarrow> length hs = length ns \<and> (\<forall>i<length ns. f (ns ! i) = Some (hs ! i))"
  by (metis length_map nth_map)

lemma resolved_names:
  assumes "map Some hs = map (getJointState r) names"
  shows "map (\<lambda>h. name (joint_states r ! h)) hs = names"
proof (rule nth_equalityI)
  from map_Some_eq_map [OF assms] have len: "length hs = length names"
    and at: "\<forall>i<length names. getJointState r (names ! i) = Some (hs ! i)" by simp_all
  show "length (map (\<lambda>h. name (joint_states r ! h)) hs) = length names" using len by simp
  fix i assume "i < length (map (\<lambda>h. name (joint_states r ! h)) hs)"
  with len at have "getJointState r (names ! i) = Some (hs ! i)" "i < length hs" by simp_all
  with getJointState_Some [of r "names ! i" "hs ! i"]
  show "map (\<lambda>h. name (joint_states r ! h)) hs ! i = names ! i" by simp
qed

lemma resolved_handle:
  assumes "map Some hs = map (getJointState r) names" and "h \<in> set hs"
  shows "\<exists>n\<in>set names. getJointState r n = Some h"
proof -
  from assms(2) obtain i where i: "i < length hs" "hs ! i = h" by (auto simp: in_set_conv_nth)
  from map_Some_eq_map [OF assms(1)] i have "getJointState r (names ! i) = Some h" "i < length names"
    by simp_all
  then show ?thesis by (metis nth_mem)
qed


subsection \<open>What leaves the bindings alone\<close>

lemma velocityCommand_joints:
  "joints (snd (reached (velocityCommand rad_per_s r c velocities))) = joints c"
  by (simp add: velocityCommand_def starting_def split: prod.splits outcome.splits)

lemma update_joints:
  "joints (fst (reached (update updatePid r c))) = joints c"
  by (simp add: update_def Let_def split: prod.splits outcome.splits)

lemma subsequent_joints:
  "subsequent updatePid rad_per_s c0 c \<Longrightarrow> joints c = joints c0"
  by (induction rule: subsequent.induct)
     (simp_all add: velocityCommand_joints update_joints starting_def)

lemma update_no_joints:
  "joints c = [] \<Longrightarrow> update updatePid r c = Done (c\<lparr>lastTime := current_time r\<rparr>, r)"
  by (simp add: update_def Let_def)


subsection \<open>The loop of the control cycle\<close>

text \<open>With a target and a PID controller for every bound joint, and every handle a
  joint of the robot, the loop runs to its end. It leaves in the PID bank what
  \<open>updatePid\<close> returned for each position, and in each joint state the commanded effort
  with the contributions of the positions bound to that joint added, in the order of the
  positions; nothing else of the robot state changes.\<close>

lemma filter_upt_Suc:
  "filter P [0..<Suc n] = (if P 0 then [0] else []) @ map Suc (filter (\<lambda>k. P (Suc k)) [0..<n])"
proof -
  have "[0..<Suc n] = 0 # map Suc [0..<n]"
    by (simp add: upt_conv_Cons map_Suc_upt del: upt_Suc)
  then show ?thesis by (simp add: filter_map comp_def del: upt_Suc)
qed

lemma update_loop_result:
  assumes "i + length hs \<le> length tv" and "i + length hs \<le> length ps"
    and "\<forall>h\<in>set hs. h < length (joint_states r)"
  shows "\<exists>ps' js'. update_loop updatePid dt tv hs i (ps, r) = Done (ps', r\<lparr>joint_states := js'\<rparr>) \<and>
     length ps' = length ps \<and> length js' = length (joint_states r) \<and>
     (\<forall>k<i. ps' ! k = ps ! k) \<and>
     (\<forall>k<length hs. ps' ! (i + k) =
         snd (updatePid (ps ! (i + k)) (velocity (joint_states r ! (hs ! k)) - tv ! (i + k)) dt)) \<and>
     (\<forall>a<length (joint_states r). js' ! a = (joint_states r ! a)
         \<lparr>commanded_effort := foldl (+) (commanded_effort (joint_states r ! a))
            (map (\<lambda>k. fst (updatePid (ps ! (i + k)) (velocity (joint_states r ! a) - tv ! (i + k)) dt))
               (filter (\<lambda>k. hs ! k = a) [0..<length hs]))\<rparr>)"
  using assms
proof (induction hs arbitrary: i ps r)
  case Nil
  show ?case
    by (intro exI [of _ ps] exI [of _ "joint_states r"]) simp
next
  case (Cons h hs)
  let ?js = "joint_states r"
  define e where "e = fst (updatePid (ps ! i) (velocity (?js ! h) - tv ! i) dt)"
  define p where "p = snd (updatePid (ps ! i) (velocity (?js ! h) - tv ! i) dt)"
  define js1 where "js1 = ?js[h := (?js ! h)\<lparr>commanded_effort := commanded_effort (?js ! h) + e\<rparr>]"
  define r1 where "r1 = r\<lparr>joint_states := js1\<rparr>"
  from Cons.prems have i: "i < length tv" "i < length ps" and h: "h < length ?js" by simp_all
  have step: "update_loop updatePid dt tv (h # hs) i (ps, r)
      = update_loop updatePid dt tv hs (Suc i) (ps[i := p], r1)"
    using i by (simp add: Let_def e_def p_def js1_def r1_def split: prod.splits)
  have js1: "joint_states r1 = js1" "length js1 = length ?js" by (simp_all add: r1_def js1_def)
  from Cons.prems js1 have pre: "Suc i + length hs \<le> length tv" "Suc i + length hs \<le> length (ps[i := p])"
    "\<forall>h\<in>set hs. h < length (joint_states r1)" by simp_all
  from Cons.IH [OF pre] obtain ps' js'
    where ih: "update_loop updatePid dt tv hs (Suc i) (ps[i := p], r1) = Done (ps', r1\<lparr>joint_states := js'\<rparr>)"
      "length ps' = length (ps[i := p])" "length js' = length (joint_states r1)"
      "\<forall>k<Suc i. ps' ! k = ps[i := p] ! k"
      "\<forall>k<length hs. ps' ! (Suc i + k) =
         snd (updatePid (ps[i := p] ! (Suc i + k)) (velocity (joint_states r1 ! (hs ! k)) - tv ! (Suc i + k)) dt)"
      "\<forall>a<length (joint_states r1). js' ! a = (joint_states r1 ! a)
         \<lparr>commanded_effort := foldl (+) (commanded_effort (joint_states r1 ! a))
            (map (\<lambda>k. fst (updatePid (ps[i := p] ! (Suc i + k)) (velocity (joint_states r1 ! a) - tv ! (Suc i + k)) dt))
               (filter (\<lambda>k. hs ! k = a) [0..<length hs]))\<rparr>"
    by (elim exE conjE) (rule that)
  have vel: "velocity (js1 ! a) = velocity (?js ! a)" for a
    by (cases "a = h") (simp_all add: js1_def h)
  have A: "update_loop updatePid dt tv (h # hs) i (ps, r) = Done (ps', r\<lparr>joint_states := js'\<rparr>)"
    using step ih(1) by (simp add: r1_def)
  have B: "length ps' = length ps" "length js' = length ?js" using ih(2,3) js1 by simp_all
  have C: "\<forall>k<i. ps' ! k = ps ! k" using ih(4) by simp
  have D: "ps' ! (i + k) = snd (updatePid (ps ! (i + k))
      (velocity (?js ! ((h # hs) ! k)) - tv ! (i + k)) dt)" if "k < length (h # hs)" for k
  proof (cases k)
    case 0
    with ih(4) i show ?thesis by (simp add: p_def)
  next
    case (Suc k')
    with that ih(5) js1 vel show ?thesis by simp
  qed
  have E: "js' ! a = (?js ! a)
         \<lparr>commanded_effort := foldl (+) (commanded_effort (?js ! a))
            (map (\<lambda>k. fst (updatePid (ps ! (i + k)) (velocity (?js ! a) - tv ! (i + k)) dt))
               (filter (\<lambda>k. (h # hs) ! k = a) [0..<length (h # hs)]))\<rparr>" if "a < length ?js" for a
  proof -
    from that ih(6) js1 have "js' ! a = (js1 ! a)
         \<lparr>commanded_effort := foldl (+) (commanded_effort (js1 ! a))
            (map (\<lambda>k. fst (updatePid (ps ! (Suc i + k)) (velocity (?js ! a) - tv ! (Suc i + k)) dt))
               (filter (\<lambda>k. hs ! k = a) [0..<length hs]))\<rparr>"
      by (simp add: vel)
    moreover have "js1 ! a = (if a = h then (?js ! h)\<lparr>commanded_effort := commanded_effort (?js ! h) + e\<rparr>
        else ?js ! a)"
      using h by (simp add: js1_def)
    ultimately show ?thesis
      by (simp add: filter_upt_Suc [of _ "length hs"] comp_def e_def del: upt_Suc)
  qed
  from A B C D E show ?case by blast
qed

lemma filter_upt_only:
  assumes "i < n" and "\<forall>k<n. P k \<longrightarrow> k = i" and "P i"
  shows "filter P [0..<n] = [i]"
proof -
  have d: "distinct (filter P [0..<n])" by simp
  have "set (filter P [0..<n]) = {k. k < n \<and> P k}" by auto
  also have "\<dots> = {i}" using assms by blast
  finally have s: "set (filter P [0..<n]) = {i}" .
  from distinct_card [OF d] s have "length (filter P [0..<n]) = Suc 0" by simp
  then obtain x where x: "filter P [0..<n] = [x]" by (auto simp: length_Suc_conv)
  with s have "x = i" by simp
  with x show ?thesis by simp
qed


section \<open>Initialisation\<close>

text \<open>When the configured joint list is a non-empty array of names that all resolve
  to calibrated joints, and the gains of the first one load, \<open>init\<close> on a freshly
  constructed controller binds the joints in the order of the list, sizes the target
  vector and the PID bank by it, sets up the first PID controller, and then reads the
  uninitialised index; it does not return.\<close>

lemma init_stops_at_uninitialised_index:
  assumes param: "joints_param nh = Some (TypeArray (map TypeString (n # names)))"
    and resolved: "\<forall>n\<in>set (n # names). \<exists>h. getJointState r n = Some h \<and> calibrated (joint_states r ! h)"
    and gains: "pid_init nh (gains_namespace nh @ ''/'' @ n) = Some p"
  shows "\<exists>hs. map Some hs = map (getJointState r) (n # names) \<and>
           map (\<lambda>h. name (joint_states r ! h)) hs = n # names \<and>
           init r nh JointVelocityController
             = Uninitialised ([], JointVelocityController\<lparr>joints := hs,
                 targetVelocities := replicate (Suc (length names)) 0,
                 pids := p # replicate (length names) Pid_default\<rparr>)"
proof -
  let ?g = "gains_namespace nh"
  from resolved have "\<forall>n\<in>set (n # names). getJointState r n \<noteq> None" by auto
  from resolve_joints_all [OF this, of "getNamespace nh" "[]"] obtain hs
    where res: "resolve_joints r (getNamespace nh) (map TypeString (n # names)) [] = (None, hs)"
      and hs: "map Some hs = map (getJointState r) (n # names)" by auto
  have names: "map (\<lambda>h. name (joint_states r ! h)) hs = n # names"
    by (rule resolved_names [OF hs])
  then obtain h hs' where split: "hs = h # hs'" and h: "name (joint_states r ! h) = n"
    and len: "length hs' = length names" by (auto simp: map_eq_Cons_conv dest: map_eq_imp_length_eq)
  have "\<forall>h\<in>set hs. calibrated (joint_states r ! h)"
    using resolved_handle [OF hs] resolved by fastforce
  then have cal: "first_uncalibrated r hs = None" by (rule first_uncalibrated_None)
  have "init r nh JointVelocityController
          = Uninitialised ([], JointVelocityController\<lparr>joints := hs,
                 targetVelocities := replicate (Suc (length names)) 0,
                 pids := p # replicate (length names) Pid_default\<rparr>)"
    using param res cal gains h len
    by (simp add: init_def JointVelocityController_def resize_def split)
  with names hs show ?thesis by (intro exI [of _ hs] conjI)
qed

text \<open>
  Claim C7, evaluated. The configured list \<open>[J2, J1]\<close> resolves to calibrated joints
  of the robot and the gains of both load. \<open>init\<close> binds the joints in the order of
  the list and sets up the PID controller of \<open>J2\<close>; then line 125 indexes the bank
  with the uninitialised \<open>i\<close>. \<open>init\<close> does not return true: it has no defined result.
\<close>

theorem init_reads_uninitialised_index:
  "init two_joints (arm_config [''J2'', ''J1'']) JointVelocityController
     = Uninitialised ([], JointVelocityController\<lparr>joints := [1, 0],
         targetVelocities := [0, 0], pids := [reset wound_up, Pid_default]\<rparr>) \<and>
   joints_param (arm_config [''J2'', ''J1'']) = Some (TypeArray [TypeString ''J2'', TypeString ''J1'']) \<and>
   getJointState two_joints ''J2'' = Some 1 \<and> calibrated (joint_states two_joints ! 1) \<and>
   getJointState two_joints ''J1'' = Some 0 \<and> calibrated (joint_states two_joints ! 0) \<and>
   pid_init (arm_config [''J2'', ''J1'']) ''arm/gains/J2'' = Some (reset wound_up) \<and>
   pid_init (arm_config [''J2'', ''J1'']) ''arm/gains/J1'' = Some (reset wound_up)"
  by (simp add: init_def arm_config_def arm_gains_def gains_namespace_def two_joints_def
      J1_def J2_def getJointState_def JointVelocityController_def resize_def)

text \<open>
  Claim C6, as stated, fails where it says that nothing is bound: the joints resolved
  before the unresolvable name have been pushed onto \<open>joints\<close>, and no failure path
  of \<open>init\<close> undoes anything. Here \<open>J1\<close> stays bound after \<open>bogus\<close> failed to resolve.
\<close>

theorem init_partial_binding:
  "init two_joints (arm_config [''J1'', ''bogus'']) JointVelocityController
     = Returned (False, [JointNotFound ''bogus'' ''arm''], JointVelocityController\<lparr>joints := [0]\<rparr>) \<and>
   getJointState two_joints ''bogus'' = None"
  by (simp add: init_def arm_config_def two_joints_def J1_def J2_def getJointState_def
      JointVelocityController_def)


text \<open>
  Claim C6, amended. When the configured joint list is an array of names of which
  one does not resolve, \<open>init\<close> on a freshly constructed controller returns false
  and reports the first name that does not resolve; the bindings it leaves are the
  handles of the names before that one, in order, and the target vector, the PID
  bank and the clock are as constructed.
\<close>

theorem init_unresolved_joint:
  assumes param: "joints_param nh = Some (TypeArray (map TypeString names))"
    and missing: "\<exists>n\<in>set names. getJointState r n = None"
  shows "\<exists>found missing rest hs.
           names = found @ missing # rest \<and>
           map Some hs = map (getJointState r) found \<and>
           getJointState r missing = None \<and>
           init r nh JointVelocityController
             = Returned (False, [JointNotFound missing (getNamespace nh)],
                JointVelocityController\<lparr>joints := hs\<rparr>)"
proof -
  from first_unresolved [OF missing] obtain found missing rest
    where split: "names = found @ missing # rest"
      and found: "\<forall>n\<in>set found. getJointState r n \<noteq> None"
      and none: "getJointState r missing = None" by blast
  from resolve_joints_stops [OF found none, of "getNamespace nh" rest "[]"] obtain hs
    where res: "resolve_joints r (getNamespace nh) (map TypeString (found @ missing # rest)) []
                  = (Some (JointNotFound missing (getNamespace nh)), hs)"
      and hs: "map Some hs = map (getJointState r) found" by auto
  have "init r nh JointVelocityController
          = Returned (False, [JointNotFound missing (getNamespace nh)], JointVelocityController\<lparr>joints := hs\<rparr>)"
    using param res split by (simp add: init_def JointVelocityController_def)
  with split hs none show ?thesis by blast
qed


theorem init_unresolved_joint_witness:
  "joints_param (arm_config [''J1'', ''bogus'']) = Some (TypeArray (map TypeString [''J1'', ''bogus''])) \<and>
   getJointState two_joints ''bogus'' = None \<and>
   (\<exists>found missing rest hs.
       [''J1'', ''bogus''] = found @ missing # rest \<and>
       map Some hs = map (getJointState two_joints) found \<and>
       getJointState two_joints missing = None \<and>
       init two_joints (arm_config [''J1'', ''bogus'']) JointVelocityController
         = Returned (False, [JointNotFound missing ''arm''], JointVelocityController\<lparr>joints := hs\<rparr>))"
proof -
  have param: "joints_param (arm_config [''J1'', ''bogus''])
      = Some (TypeArray (map TypeString [''J1'', ''bogus'']))"
    by (simp add: arm_config_def)
  have none: "getJointState two_joints ''bogus'' = None"
    by (simp add: getJointState_def two_joints_def J1_def J2_def)
  then have missing: "\<exists>n\<in>set [''J1'', ''bogus'']. getJointState two_joints n = None" by simp
  have ns: "getNamespace (arm_config [''J1'', ''bogus'']) = ''arm''" by (simp add: arm_config_def)
  from init_unresolved_joint [OF param missing, unfolded ns] param none
  show ?thesis by blast
qed


text \<open>
  Claim C10. When the configured joint list is an empty array, \<open>init\<close> on a freshly
  constructed controller returns true with no bound joint and an empty target
  vector, and every tick from any state that follows returns with the robot state,
  and so every commanded effort, as it was.
\<close>

theorem init_no_joints:
  assumes param: "joints_param nh = Some (TypeArray [])"
  shows "\<exists>c0. init r nh JointVelocityController = Returned (True, [], c0) \<and>
           joints c0 = [] \<and> targetVelocities c0 = [] \<and>
           (\<forall>c r'. subsequent updatePid rad_per_s c0 c \<longrightarrow>
              update updatePid r' c = Done (c\<lparr>lastTime := current_time r'\<rparr>, r'))"
proof -
  have i: "init r nh JointVelocityController = Returned (True, [], JointVelocityController)"
    using param by (simp add: init_def JointVelocityController_def resize_def)
  have "update updatePid r' c = Done (c\<lparr>lastTime := current_time r'\<rparr>, r')"
    if "subsequent updatePid rad_per_s JointVelocityController c" for c r'
    using subsequent_joints [OF that] by (simp add: update_no_joints JointVelocityController_def)
  with i show ?thesis by (simp add: JointVelocityController_def)
qed

theorem init_no_joints_witness:
  "joints_param (arm_config []) = Some (TypeArray []) \<and>
   init two_joints (arm_config []) JointVelocityController = Returned (True, [], JointVelocityController) \<and>
   update proportional two_joints JointVelocityController
     = Done (JointVelocityController\<lparr>lastTime := 5\<rparr>, two_joints)"
proof -
  have param: "joints_param (arm_config []) = Some (TypeArray [])"
    by (simp add: arm_config_def)
  from init_no_joints [OF param, of two_joints proportional "''rad/s''"] obtain c0
    where i: "init two_joints (arm_config []) JointVelocityController = Returned (True, [], c0)"
      and t: "\<forall>c r'. subsequent proportional ''rad/s'' c0 c \<longrightarrow>
              update proportional r' c = Done (c\<lparr>lastTime := current_time r'\<rparr>, r')"
    by blast
  have "init two_joints (arm_config []) JointVelocityController = Returned (True, [], JointVelocityController)"
    by (simp add: init_def arm_config_def JointVelocityController_def resize_def)
  with i have c0: "c0 = JointVelocityController" by simp
  from t subsequent.initial [of proportional "''rad/s''" c0]
  have "update proportional two_joints c0 = Done (c0\<lparr>lastTime := current_time two_joints\<rparr>, two_joints)"
    by blast
  moreover have "current_time two_joints = 5" by (simp add: two_joints_def)
  ultimately show ?thesis using param i c0 by simp
qed

section \<open>Command ingestion: the empty command and the frame of a non-empty one\<close>

text \<open>
  Claim C5. For every state, applying an empty command list is a start event: the
  result is that of \<open>starting\<close>, in which every PID controller has been reset, so its
  internal integral and derivative state is zero, and the clock baseline is the
  current time of the robot state; the target velocities (and the bindings) are the
  ones from before.
\<close>

theorem velocityCommand_empty_is_starting:
  "velocityCommand rad_per_s r c [] = Done ([], starting r c) \<and>
   pids (starting r c) = map reset (pids c) \<and>
   (\<forall>p \<in> set (pids (starting r c)). i_error p = 0 \<and> d_error p = 0) \<and>
   lastTime (starting r c) = current_time r \<and>
   targetVelocities (starting r c) = targetVelocities c \<and>
   joints (starting r c) = joints c"
  by (auto simp: velocityCommand_def starting_def reset_def)

theorem velocityCommand_empty_is_starting_witness:
  "velocityCommand ''rad/s'' two_joints running_two [] = Done ([], starting two_joints running_two) \<and>
   pids (starting two_joints running_two) = [reset wound_up, reset wound_up] \<and>
   i_error wound_up = 3 \<and> d_error wound_up = 1 \<and>
   i_error (reset wound_up) = 0 \<and> d_error (reset wound_up) = 0 \<and>
   lastTime (starting two_joints running_two) = 5 \<and>
   targetVelocities (starting two_joints running_two) = [1 / 2, 7 / 10]"
  using velocityCommand_empty_is_starting [of "''rad/s''" two_joints running_two]
  by (simp add: running_two_def two_joints_def wound_up_def)

text \<open>
  Claim C9. A non-empty command leaves the PID controllers and the clock baseline as
  they were, whether it runs to its end or leaves the target vector on the way; the
  bindings stay as well.
\<close>

theorem velocityCommand_nonempty_frame:
  assumes "velocities \<noteq> []"
  shows "pids (snd (reached (velocityCommand rad_per_s r c velocities))) = pids c \<and>
         lastTime (snd (reached (velocityCommand rad_per_s r c velocities))) = lastTime c \<and>
         joints (snd (reached (velocityCommand rad_per_s r c velocities))) = joints c"
  using assms by (simp add: velocityCommand_def split: prod.splits outcome.splits)

theorem velocityCommand_nonempty_frame_witness:
  "[\<lparr>joint_uri = ''J1'', jv_unit = ''rad/s'', jv_value = 1\<rparr>] \<noteq> [] \<and>
   pids (snd (reached (velocityCommand ''rad/s'' two_joints running_two
      [\<lparr>joint_uri = ''J1'', jv_unit = ''rad/s'', jv_value = 1\<rparr>]))) = [wound_up, wound_up] \<and>
   lastTime (snd (reached (velocityCommand ''rad/s'' two_joints running_two
      [\<lparr>joint_uri = ''J1'', jv_unit = ''rad/s'', jv_value = 1\<rparr>]))) = 2"
  using velocityCommand_nonempty_frame
    [of "[\<lparr>joint_uri = ''J1'', jv_unit = ''rad/s'', jv_value = 1\<rparr>]" "''rad/s''" two_joints running_two]
  by (simp add: running_two_def)

section \<open>Command ingestion: the size of the target vector\<close>

text \<open>
  Claim C2, evaluated. With the joints \<open>J1\<close>, \<open>J2\<close> bound and the targets \<open>[0, 0]\<close>, the
  command \<open>[(J2, 1.5, u)]\<close> in the expected unit \<open>u\<close> reports that \<open>J1\<close> is not in the
  command and nothing about \<open>J2\<close>, as the claim says. The target vector, however, is
  resized to the one entry of the command, and the write for \<open>J2\<close> at position 1 is
  past its end: the targets are not \<open>[0, 1.5]\<close>.
\<close>

theorem velocityCommand_J2_only:
  "velocityCommand u two_joints bound_two [\<lparr>joint_uri = ''J2'', jv_unit = u, jv_value = 1.5\<rparr>]
     = OutOfRange 1 ([UnableToLocateJoint ''J1''], bound_two\<lparr>targetVelocities := [0]\<rparr>)"
  by (simp add: velocityCommand_def two_joints_def bound_two_def J1_def J2_def resize_def)

text \<open>
  Claim C3, evaluated. With the joints \<open>J1\<close>, \<open>J2\<close> bound and the targets \<open>[0.5, 0.7]\<close>,
  the command \<open>[(J1, 1.5, u)]\<close> runs to its end and leaves one target for two bound
  joints; the target \<open>0.7\<close> of \<open>J2\<close>, for which no entry matched, is no longer in the
  vector.
\<close>

theorem velocityCommand_J1_only:
  "velocityCommand u two_joints running_two [\<lparr>joint_uri = ''J1'', jv_unit = u, jv_value = 1.5\<rparr>]
     = Done ([UnableToLocateJoint ''J2''], running_two\<lparr>targetVelocities := [1.5]\<rparr>) \<and>
   length (joints running_two) = 2 \<and> targetVelocities running_two ! 1 = 7 / 10"
  by (simp add: velocityCommand_def two_joints_def running_two_def J1_def J2_def resize_def)

text \<open>
  Claim C4. A non-empty command resizes the target vector to its number of entries,
  whatever happens afterwards. When it has fewer entries than there are bound joints
  (and the PID bank has one controller per joint, as after \<open>init\<close>):
  if a bound joint at a position from the entry count on matches an entry, the command
  writes \<^verbatim>\<open>targetVelocities[j]\<close> at a position \<open>j\<close> past the end of the vector; and
  in any case the next tick reads \<^verbatim>\<open>targetVelocities[i]\<close> past the end, at the entry
  count.
\<close>

theorem velocityCommand_resize_out_of_range:
  assumes ne: "velocities \<noteq> []"
    and short: "length velocities < length (joints c)"
    and bank: "length (pids c) = length (joints c)"
  shows "length (targetVelocities (snd (reached (velocityCommand rad_per_s r c velocities))))
           = length velocities \<and>
         ((\<exists>j<length (joints c). length velocities \<le> j \<and>
              locate velocities (name (joint_states r ! (joints c ! j))) 0 \<noteq> - 1) \<longrightarrow>
          (\<exists>j st. velocityCommand rad_per_s r c velocities = OutOfRange j st \<and>
              length velocities \<le> j \<and> j < length (joints c))) \<and>
         (\<exists>st. update updatePid r' (snd (reached (velocityCommand rad_per_s r c velocities)))
              = OutOfRange (length velocities) st)"
proof -
  let ?lookup = "map (\<lambda>h. locate velocities (name (joint_states r ! h)) 0) (joints c)"
  let ?lg = "snd (correlate r velocities (joints c))"
  let ?tv = "resize (length velocities) 0 (targetVelocities c)"
  let ?c' = "snd (reached (velocityCommand rad_per_s r c velocities))"
  have len: "length (targetVelocities ?c') = length velocities"
    using write_targets_keeps [of rad_per_s velocities ?lookup 0 ?lg ?tv]
    by (simp add: velocityCommand_nonempty [OF ne] length_resize)
  have frame: "pids ?c' = pids c" "joints ?c' = joints c"
    by (simp_all add: velocityCommand_nonempty [OF ne])
  have fault: "\<exists>j st. velocityCommand rad_per_s r c velocities = OutOfRange j st \<and>
              length velocities \<le> j \<and> j < length (joints c)"
    if "\<exists>j<length (joints c). length velocities \<le> j \<and>
              locate velocities (name (joint_states r ! (joints c ! j))) 0 \<noteq> - 1"
  proof -
    from that obtain j where j: "j < length (joints c)" "length velocities \<le> j"
      "locate velocities (name (joint_states r ! (joints c ! j))) 0 \<noteq> - 1" by blast
    have tv: "?tv \<noteq> []" using ne by (simp add: resize_def)
    from write_targets_past_end [OF tv, of j ?lookup 0 rad_per_s velocities ?lg] j
    obtain j' st where w: "write_targets rad_per_s velocities ?lookup 0 (?lg, ?tv) = OutOfRange j' st"
      "length velocities \<le> j'" "j' \<le> j"
      by (auto simp: length_resize)
    from w(1) correlate_lookup [of r velocities "joints c"] ne
    have "\<exists>st'. velocityCommand rad_per_s r c velocities = OutOfRange j' st'"
      by (cases st) (auto simp: velocityCommand_def split: prod.splits)
    with w(2,3) j(1) show ?thesis by auto
  qed
  have tick: "\<exists>st. update updatePid r' ?c' = OutOfRange (length velocities) st"
  proof -
    from update_loop_short_targets [of 0 "targetVelocities ?c'" "joints ?c'" "pids ?c'"
        updatePid "current_time r' - lastTime ?c'" r'] len frame short bank
    obtain st where "update_loop updatePid (current_time r' - lastTime ?c') (targetVelocities ?c')
        (joints ?c') 0 (pids ?c', r') = OutOfRange (length velocities) st" by auto
    then show ?thesis
      by (cases st) (simp add: update_def Let_def)
  qed
  from len fault tick show ?thesis by blast
qed


theorem velocityCommand_resize_out_of_range_witness:
  "J2_only \<noteq> [] \<and> length J2_only < length (joints bound_two) \<and>
   length (pids bound_two) = length (joints bound_two) \<and>
   locate J2_only (name (joint_states two_joints ! (joints bound_two ! 1))) 0 = 0 \<and>
   length (targetVelocities (snd (reached (velocityCommand ''rad/s'' two_joints bound_two J2_only)))) = 1 \<and>
   (\<exists>j st. velocityCommand ''rad/s'' two_joints bound_two J2_only = OutOfRange j st \<and>
       1 \<le> j \<and> j < 2) \<and>
   (\<exists>st. update proportional two_joints
            (snd (reached (velocityCommand ''rad/s'' two_joints bound_two J2_only)))
        = OutOfRange 1 st)"
proof -
  have ne: "J2_only \<noteq> []" and short: "length J2_only < length (joints bound_two)"
    and bank: "length (pids bound_two) = length (joints bound_two)"
    by (simp_all add: J2_only_def bound_two_def)
  have found: "locate J2_only (name (joint_states two_joints ! (joints bound_two ! 1))) 0 = 0"
    by (simp add: J2_only_def bound_two_def two_joints_def J2_def)
  then have later: "\<exists>j<length (joints bound_two). length J2_only \<le> j \<and>
      locate J2_only (name (joint_states two_joints ! (joints bound_two ! j))) 0 \<noteq> - 1"
    by (intro exI [of _ 1]) (simp add: J2_only_def bound_two_def)
  have l1: "length J2_only = 1" and l2: "length (joints bound_two) = 2"
    by (simp_all add: J2_only_def bound_two_def)
  note inst = velocityCommand_resize_out_of_range
    [OF ne short bank, of "''rad/s''" two_joints proportional two_joints]
  from inst have A:
    "length (targetVelocities (snd (reached (velocityCommand ''rad/s'' two_joints bound_two J2_only))))
       = length J2_only" by blast
  from inst later have B:
    "\<exists>j st. velocityCommand ''rad/s'' two_joints bound_two J2_only = OutOfRange j st \<and>
       length J2_only \<le> j \<and> j < length (joints bound_two)" by blast
  from inst have C:
    "\<exists>st. update proportional two_joints
            (snd (reached (velocityCommand ''rad/s'' two_joints bound_two J2_only)))
        = OutOfRange (length J2_only) st" by blast
  show ?thesis using A B C ne short bank found
    by (simp add: l1 l2)
qed

section \<open>Command ingestion: units\<close>





section \<open>The control cycle\<close>

text \<open>
  Claim C1, evaluated. The two joints are bound, with a target and a PID controller
  each. The command \<open>[(J1, 1.5, rad/s)]\<close> runs to its end and leaves one target for
  them. In the tick that follows the clock baseline becomes the current time, the
  error of \<open>J1\<close> is its velocity minus its target, and the effort \<open>updatePid\<close> returns
  for it and the elapsed time is added to the commanded effort of \<open>J1\<close>, as
  claimed; for \<open>J2\<close> the tick reads \<^verbatim>\<open>targetVelocities[1]\<close> past the end of the
  vector: there is no error for \<open>J2\<close>, and nothing is added to its commanded effort.
\<close>

theorem update_after_short_command:
  "velocityCommand ''rad/s'' moving_two running_two J1_only
     = Done ([UnableToLocateJoint ''J2''], running_two\<lparr>targetVelocities := [3 / 2]\<rparr>) \<and>
   length (joints (running_two\<lparr>targetVelocities := [3 / 2]\<rparr>)) = 2 \<and>
   update integrating moving_two (running_two\<lparr>targetVelocities := [3 / 2]\<rparr>)
     = OutOfRange 1
         (running_two\<lparr>targetVelocities := [3 / 2], lastTime := 5,
            pids := [wound_up\<lparr>i_error := 3 / 2\<rparr>, wound_up]\<rparr>,
          moving_two\<lparr>joint_states :=
            [\<lparr>name = ''J1'', velocity = 1, commanded_effort = 19 / 2, calibrated = True\<rparr>,
             \<lparr>name = ''J2'', velocity = 2, commanded_effort = 20, calibrated = True\<rparr>]\<rparr>)"
  by (simp add: velocityCommand_def update_def moving_two_def running_two_def J1_only_def
      resize_def integrating_def wound_up_def Let_def)

text \<open>
  Where every bound joint has a target and a PID controller (the sizes \<open>init\<close> gives
  the vectors), the handles being joints of the robot, a tick returns with the clock
  baseline at the current time. The elapsed time is the current time minus the
  previous baseline. For each bound joint \<open>i\<close> the error is the velocity of the joint
  minus \<open>targetVelocities[i]\<close>, the PID controller \<open>i\<close> is the one \<open>updatePid\<close> leaves
  for that error and the elapsed time, and the effort \<open>updatePid\<close> returns is added
  to the commanded effort of the joint: the commanded effort of every joint of the
  robot is its prior value plus the contributions of the positions bound to it, one
  after the other, and for a joint bound at one position only it is the prior value
  plus that one contribution. Bindings and targets do not change.
\<close>

lemma update_tick:
  assumes targets: "length (joints c) \<le> length (targetVelocities c)"
    and bank: "length (joints c) \<le> length (pids c)"
    and handles: "\<forall>h\<in>set (joints c). h < length (joint_states r)"
  shows "\<exists>c' r'. update updatePid r c = Done (c', r') \<and>
      lastTime c' = current_time r \<and> current_time r' = current_time r \<and>
      joints c' = joints c \<and> targetVelocities c' = targetVelocities c \<and>
      length (pids c') = length (pids c) \<and>
      length (joint_states r') = length (joint_states r) \<and>
      (\<forall>i<length (joints c).
         pids c' ! i = snd (updatePid (pids c ! i)
            (velocity (joint_states r ! (joints c ! i)) - targetVelocities c ! i)
            (current_time r - lastTime c))) \<and>
      (\<forall>a<length (joint_states r).
         joint_states r' ! a = (joint_states r ! a)
           \<lparr>commanded_effort := foldl (+) (commanded_effort (joint_states r ! a))
              (map (\<lambda>i. fst (updatePid (pids c ! i)
                      (velocity (joint_states r ! a) - targetVelocities c ! i)
                      (current_time r - lastTime c)))
                 (filter (\<lambda>i. joints c ! i = a) [0..<length (joints c)]))\<rparr>) \<and>
      (\<forall>i<length (joints c). (\<forall>k<length (joints c). joints c ! k = joints c ! i \<longrightarrow> k = i) \<longrightarrow>
         commanded_effort (joint_states r' ! (joints c ! i))
           = commanded_effort (joint_states r ! (joints c ! i))
             + fst (updatePid (pids c ! i)
                 (velocity (joint_states r ! (joints c ! i)) - targetVelocities c ! i)
                 (current_time r - lastTime c)))"
proof -
  let ?dt = "current_time r - lastTime c"
  have "\<exists>ps' js'. update_loop updatePid ?dt (targetVelocities c) (joints c) 0 (pids c, r)
                   = Done (ps', r\<lparr>joint_states := js'\<rparr>) \<and>
      length ps' = length (pids c) \<and> length js' = length (joint_states r) \<and>
      (\<forall>k<length (joints c). ps' ! k =
         snd (updatePid (pids c ! k) (velocity (joint_states r ! (joints c ! k)) - targetVelocities c ! k) ?dt)) \<and>
      (\<forall>a<length (joint_states r). js' ! a = (joint_states r ! a)
         \<lparr>commanded_effort := foldl (+) (commanded_effort (joint_states r ! a))
            (map (\<lambda>k. fst (updatePid (pids c ! k) (velocity (joint_states r ! a) - targetVelocities c ! k) ?dt))
               (filter (\<lambda>k. joints c ! k = a) [0..<length (joints c)]))\<rparr>)"
    using update_loop_result [of 0 "joints c" "targetVelocities c" "pids c" r updatePid ?dt]
      targets bank handles by simp
  then obtain ps' js'
    where loop: "update_loop updatePid ?dt (targetVelocities c) (joints c) 0 (pids c, r)
                   = Done (ps', r\<lparr>joint_states := js'\<rparr>)"
      and len: "length ps' = length (pids c)" "length js' = length (joint_states r)"
      and bankr: "\<forall>k<length (joints c). ps' ! k =
         snd (updatePid (pids c ! k) (velocity (joint_states r ! (joints c ! k)) - targetVelocities c ! k) ?dt)"
      and eff: "\<forall>a<length (joint_states r). js' ! a = (joint_states r ! a)
         \<lparr>commanded_effort := foldl (+) (commanded_effort (joint_states r ! a))
            (map (\<lambda>k. fst (updatePid (pids c ! k) (velocity (joint_states r ! a) - targetVelocities c ! k) ?dt))
               (filter (\<lambda>k. joints c ! k = a) [0..<length (joints c)]))\<rparr>"
    by (elim exE conjE) (rule that)
  let ?c' = "c\<lparr>lastTime := current_time r, pids := ps'\<rparr>"
  let ?r' = "r\<lparr>joint_states := js'\<rparr>"
  have run: "update updatePid r c = Done (?c', ?r')"
    using loop by (simp add: update_def Let_def)
  have single: "commanded_effort (js' ! (joints c ! i))
           = commanded_effort (joint_states r ! (joints c ! i))
             + fst (updatePid (pids c ! i)
                 (velocity (joint_states r ! (joints c ! i)) - targetVelocities c ! i) ?dt)"
    if i: "i < length (joints c)" and only: "\<forall>k<length (joints c). joints c ! k = joints c ! i \<longrightarrow> k = i"
    for i
  proof -
    from i handles have a: "joints c ! i < length (joint_states r)" by simp
    have f: "filter (\<lambda>k. joints c ! k = joints c ! i) [0..<length (joints c)] = [i]"
      by (rule filter_upt_only [OF i only]) simp
    from eff a show ?thesis by (simp add: f)
  qed
  have bank': "\<forall>i<length (joints c).
         pids ?c' ! i = snd (updatePid (pids c ! i)
            (velocity (joint_states r ! (joints c ! i)) - targetVelocities c ! i) ?dt)"
    using bankr by simp
  have eff': "\<forall>a<length (joint_states r).
         joint_states ?r' ! a = (joint_states r ! a)
           \<lparr>commanded_effort := foldl (+) (commanded_effort (joint_states r ! a))
              (map (\<lambda>i. fst (updatePid (pids c ! i)
                      (velocity (joint_states r ! a) - targetVelocities c ! i) ?dt))
                 (filter (\<lambda>i. joints c ! i = a) [0..<length (joints c)]))\<rparr>"
    using eff by simp
  have single': "\<forall>i<length (joints c). (\<forall>k<length (joints c). joints c ! k = joints c ! i \<longrightarrow> k = i) \<longrightarrow>
         commanded_effort (joint_states ?r' ! (joints c ! i))
           = commanded_effort (joint_states r ! (joints c ! i))
             + fst (updatePid (pids c ! i)
                 (velocity (joint_states r ! (joints c ! i)) - targetVelocities c ! i) ?dt)"
  proof (intro allI impI)
    fix i assume "i < length (joints c)"
      and "\<forall>k<length (joints c). joints c ! k = joints c ! i \<longrightarrow> k = i"
    from single [OF this]
    show "commanded_effort (joint_states ?r' ! (joints c ! i))
           = commanded_effort (joint_states r ! (joints c ! i))
             + fst (updatePid (pids c ! i)
                 (velocity (joint_states r ! (joints c ! i)) - targetVelocities c ! i) ?dt)"
      by simp
  qed
  have frame: "lastTime ?c' = current_time r" "current_time ?r' = current_time r"
    "joints ?c' = joints c" "targetVelocities ?c' = targetVelocities c"
    "length (pids ?c') = length (pids c)" "length (joint_states ?r') = length (joint_states r)"
    using len by simp_all
  from run frame bank' eff' single' show ?thesis
    by (intro exI [of _ ?c'] exI [of _ ?r'] conjI)
qed

lemma update_tick_example:
  "length (joints running_two) \<le> length (targetVelocities running_two) \<and>
   length (joints running_two) \<le> length (pids running_two) \<and>
   current_time moving_two - lastTime running_two = 3 \<and>
   (\<exists>c' r'. update integrating moving_two running_two = Done (c', r') \<and>
      lastTime c' = 5 \<and>
      pids c' ! 0 = wound_up\<lparr>i_error := 9 / 2\<rparr> \<and>
      pids c' ! 1 = wound_up\<lparr>i_error := 69 / 10\<rparr> \<and>
      commanded_effort (joint_states moving_two ! 0) = 10 \<and>
      commanded_effort (joint_states r' ! 0) = 9 / 2 \<and>
      commanded_effort (joint_states moving_two ! 1) = 20 \<and>
      commanded_effort (joint_states r' ! 1) = 21 / 2)"
proof -
  have targets: "length (joints running_two) \<le> length (targetVelocities running_two)"
    and bank: "length (joints running_two) \<le> length (pids running_two)"
    and handles: "\<forall>h\<in>set (joints running_two). h < length (joint_states moving_two)"
    and dt: "current_time moving_two - lastTime running_two = 3"
    by (simp_all add: running_two_def moving_two_def)
  have n: "length (joints running_two) = 2" by (simp add: running_two_def)
  have u0: "\<forall>k<length (joints running_two). joints running_two ! k = joints running_two ! 0 \<longrightarrow> k = 0"
    and u1: "\<forall>k<length (joints running_two). joints running_two ! k = joints running_two ! 1 \<longrightarrow> k = 1"
    by (auto simp: running_two_def less_Suc_eq)
  from update_tick [OF targets bank handles, of integrating] obtain c' r'
    where run: "update integrating moving_two running_two = Done (c', r')"
      and lt: "lastTime c' = current_time moving_two"
      and bankf: "\<forall>i<length (joints running_two).
         pids c' ! i = snd (integrating (pids running_two ! i)
            (velocity (joint_states moving_two ! (joints running_two ! i)) - targetVelocities running_two ! i)
            (current_time moving_two - lastTime running_two))"
      and single: "\<forall>i<length (joints running_two).
         (\<forall>k<length (joints running_two). joints running_two ! k = joints running_two ! i \<longrightarrow> k = i) \<longrightarrow>
         commanded_effort (joint_states r' ! (joints running_two ! i))
           = commanded_effort (joint_states moving_two ! (joints running_two ! i))
             + fst (integrating (pids running_two ! i)
                 (velocity (joint_states moving_two ! (joints running_two ! i)) - targetVelocities running_two ! i)
                 (current_time moving_two - lastTime running_two))"
    by (elim exE conjE) (rule that)
  from bankf n have "pids c' ! 0 = snd (integrating (pids running_two ! 0)
            (velocity (joint_states moving_two ! (joints running_two ! 0)) - targetVelocities running_two ! 0)
            (current_time moving_two - lastTime running_two))" by simp
  then have p0: "pids c' ! 0 = wound_up\<lparr>i_error := 9 / 2\<rparr>"
    by (simp add: dt) (simp add: running_two_def moving_two_def integrating_def wound_up_def Let_def)
  from bankf n have "pids c' ! 1 = snd (integrating (pids running_two ! 1)
            (velocity (joint_states moving_two ! (joints running_two ! 1)) - targetVelocities running_two ! 1)
            (current_time moving_two - lastTime running_two))" by simp
  then have p1: "pids c' ! 1 = wound_up\<lparr>i_error := 69 / 10\<rparr>"
    by (simp add: dt) (simp add: running_two_def moving_two_def integrating_def wound_up_def Let_def)
  have i0: "0 < length (joints running_two)" and i1: "1 < length (joints running_two)"
    by (simp_all add: n)
  from single [rule_format, OF i0 u0 [rule_format]] have "commanded_effort (joint_states r' ! (joints running_two ! 0))
           = commanded_effort (joint_states moving_two ! (joints running_two ! 0))
             + fst (integrating (pids running_two ! 0)
                 (velocity (joint_states moving_two ! (joints running_two ! 0)) - targetVelocities running_two ! 0)
                 (current_time moving_two - lastTime running_two))" .
  then have e0: "commanded_effort (joint_states r' ! 0) = 9 / 2"
    by (simp add: dt) (simp add: running_two_def moving_two_def integrating_def wound_up_def Let_def)
  from single [rule_format, OF i1 u1 [rule_format]] have "commanded_effort (joint_states r' ! (joints running_two ! 1))
           = commanded_effort (joint_states moving_two ! (joints running_two ! 1))
             + fst (integrating (pids running_two ! 1)
                 (velocity (joint_states moving_two ! (joints running_two ! 1)) - targetVelocities running_two ! 1)
                 (current_time moving_two - lastTime running_two))" .
  then have e1: "commanded_effort (joint_states r' ! 1) = 21 / 2"
    by (simp add: dt) (simp add: running_two_def moving_two_def integrating_def wound_up_def Let_def)
  have before: "commanded_effort (joint_states moving_two ! 0) = 10"
    "commanded_effort (joint_states moving_two ! 1) = 20"
    by (simp_all add: moving_two_def)
  from lt have lt': "lastTime c' = 5" by (simp add: moving_two_def)
  from targets bank dt run lt' p0 p1 before(1) e0 before(2) e1 show ?thesis
    by (intro conjI exI [of _ c'] exI [of _ r'])
qed

end
